theory Spec2Isabelle
  imports Complex_Main
begin

section \<open>Reference odometry: the data model\<close>

text \<open>
  The program is \<^verbatim>\<open>reference_odometry.py\<close>. Python floats are modelled as real numbers:
  every equation below is an equation of exact arithmetic, and a statement "within
  tolerance" of the specification is read as that exact equation.

  The message classes come from \<^verbatim>\<open>geometry_msgs\<close>. \<^verbatim>\<open>Point\<close> and \<^verbatim>\<open>Vector3\<close> both carry
  the fields \<^verbatim>\<open>x, y, z\<close>, and the program stores one where the other is declared
  (\<^verbatim>\<open>t.transform.translation = ....position\<close>), so one type serves both. A \<^verbatim>\<open>Quaternion\<close>
  message read field by field and a numpy array of four floats in the order
  \<^verbatim>\<open>x, y, z, w\<close> share the type of four reals; where the program hands a message object
  to code that indexes or unpacks it, the object is a value of its own (\<open>pyvalue\<close> below).

  Line 154 of the source lacks its closing parenthesis, so the module as it stands is
  refused by the parser. Each function is modelled from its own text, every name looked
  up as Python would; no modelled path reaches line 154.
\<close>

datatype xyz = XYZ (cx: real) (cy: real) (cz: real)

datatype quat = Quat (qx: real) (qy: real) (qz: real) (qw: real)

record pose =
  position :: xyz
  orientation :: quat

record transform =
  translation :: xyz
  rotation :: quat

record twist =
  twist_linear :: xyz
  twist_angular :: xyz

text \<open>
  A value handed to code that treats it as a sequence: a \<^verbatim>\<open>Quaternion\<close> or \<^verbatim>\<open>Vector3\<close>
  message, which can be neither iterated nor indexed, or a sequence of floats (a list, a
  tuple, a numpy array).
\<close>

datatype pyvalue = QuaternionMsg quat | Vector3Msg xyz | FloatSeq "real list"

text \<open>A 4x4 numpy array, row by row: \<open>mRC\<close> is the entry \<^verbatim>\<open>a[R, C]\<close>.\<close>

datatype mat4 = Mat4
  (m00: real) (m01: real) (m02: real) (m03: real)
  (m10: real) (m11: real) (m12: real) (m13: real)
  (m20: real) (m21: real) (m22: real) (m23: real)
  (m30: real) (m31: real) (m32: real) (m33: real)

text \<open>The exceptions the modelled code can raise.\<close>

datatype error = LinAlgError | ValueError | ZeroDivisionError | IndexError | TypeError | NameError

section \<open>numpy\<close>

definition eye4 :: mat4 where
  "eye4 = Mat4 1 0 0 0  0 1 0 0  0 0 1 0  0 0 0 1"

text \<open>\<^verbatim>\<open>a[i, j]\<close> for indices given as numbers.\<close>

definition mat_at :: "mat4 \<Rightarrow> nat \<Rightarrow> nat \<Rightarrow> real" where
  "mat_at M i j =
     (if i = 0 then (if j = 0 then m00 M else if j = 1 then m01 M else if j = 2 then m02 M else m03 M)
      else if i = 1 then (if j = 0 then m10 M else if j = 1 then m11 M else if j = 2 then m12 M else m13 M)
      else if i = 2 then (if j = 0 then m20 M else if j = 1 then m21 M else if j = 2 then m22 M else m23 M)
      else (if j = 0 then m30 M else if j = 1 then m31 M else if j = 2 then m32 M else m33 M))"

text \<open>\<^verbatim>\<open>np.dot(A, B)\<close> of two 4x4 arrays: the matrix product.\<close>

definition mat_mul :: "mat4 \<Rightarrow> mat4 \<Rightarrow> mat4" where
  "mat_mul A B = Mat4
     (m00 A * m00 B + m01 A * m10 B + m02 A * m20 B + m03 A * m30 B)
     (m00 A * m01 B + m01 A * m11 B + m02 A * m21 B + m03 A * m31 B)
     (m00 A * m02 B + m01 A * m12 B + m02 A * m22 B + m03 A * m32 B)
     (m00 A * m03 B + m01 A * m13 B + m02 A * m23 B + m03 A * m33 B)
     (m10 A * m00 B + m11 A * m10 B + m12 A * m20 B + m13 A * m30 B)
     (m10 A * m01 B + m11 A * m11 B + m12 A * m21 B + m13 A * m31 B)
     (m10 A * m02 B + m11 A * m12 B + m12 A * m22 B + m13 A * m32 B)
     (m10 A * m03 B + m11 A * m13 B + m12 A * m23 B + m13 A * m33 B)
     (m20 A * m00 B + m21 A * m10 B + m22 A * m20 B + m23 A * m30 B)
     (m20 A * m01 B + m21 A * m11 B + m22 A * m21 B + m23 A * m31 B)
     (m20 A * m02 B + m21 A * m12 B + m22 A * m22 B + m23 A * m32 B)
     (m20 A * m03 B + m21 A * m13 B + m22 A * m23 B + m23 A * m33 B)
     (m30 A * m00 B + m31 A * m10 B + m32 A * m20 B + m33 A * m30 B)
     (m30 A * m01 B + m31 A * m11 B + m32 A * m21 B + m33 A * m31 B)
     (m30 A * m02 B + m31 A * m12 B + m32 A * m22 B + m33 A * m32 B)
     (m30 A * m03 B + m31 A * m13 B + m32 A * m23 B + m33 A * m33 B)"

text \<open>
  \<^verbatim>\<open>np.linalg.inv\<close>: the inverse of a general square matrix, \<^verbatim>\<open>LinAlgError\<close> when the matrix
  is singular. In exact arithmetic the inverse is the adjugate over the determinant,
  whatever elimination the library runs; the model computes it from the cofactors.
\<close>

definition det3 :: "real \<Rightarrow> real \<Rightarrow> real \<Rightarrow> real \<Rightarrow> real \<Rightarrow> real \<Rightarrow> real \<Rightarrow> real \<Rightarrow> real \<Rightarrow> real" where
  "det3 a b c d e f g h i = a * (e * i - f * h) - b * (d * i - f * g) + c * (d * h - e * g)"

definition others :: "nat \<Rightarrow> nat list" where
  "others r = filter (\<lambda>i. i \<noteq> r) [0, 1, 2, 3]"

definition minor :: "mat4 \<Rightarrow> nat \<Rightarrow> nat \<Rightarrow> real" where
  "minor M r c =
     (case (others r, others c) of
        ([r0, r1, r2], [c0, c1, c2]) \<Rightarrow>
          det3 (mat_at M r0 c0) (mat_at M r0 c1) (mat_at M r0 c2)
               (mat_at M r1 c0) (mat_at M r1 c1) (mat_at M r1 c2)
               (mat_at M r2 c0) (mat_at M r2 c1) (mat_at M r2 c2)
      | _ \<Rightarrow> 0)"

definition cofactor :: "mat4 \<Rightarrow> nat \<Rightarrow> nat \<Rightarrow> real" where
  "cofactor M r c = (if even (r + c) then minor M r c else - minor M r c)"

definition det4 :: "mat4 \<Rightarrow> real" where
  "det4 M = m00 M * cofactor M 0 0 + m01 M * cofactor M 0 1
          + m02 M * cofactor M 0 2 + m03 M * cofactor M 0 3"

definition linalg_inv :: "mat4 \<Rightarrow> error + mat4" where
  "linalg_inv M =
     (let d = det4 M in
      if d = 0 then Inl LinAlgError
      else Inr (Mat4
        (cofactor M 0 0 / d) (cofactor M 1 0 / d) (cofactor M 2 0 / d) (cofactor M 3 0 / d)
        (cofactor M 0 1 / d) (cofactor M 1 1 / d) (cofactor M 2 1 / d) (cofactor M 3 1 / d)
        (cofactor M 0 2 / d) (cofactor M 1 2 / d) (cofactor M 2 2 / d) (cofactor M 3 2 / d)
        (cofactor M 0 3 / d) (cofactor M 1 3 / d) (cofactor M 2 3 / d) (cofactor M 3 3 / d)))"

section \<open>tf.transformations\<close>

text \<open>
  The four functions of the library \<^verbatim>\<open>tf.transformations\<close> that the program calls, after
  the library's definitions. Quaternions are arrays in the order \<^verbatim>\<open>x, y, z, w\<close>.
  \<^verbatim>\<open>_EPS\<close> is \<^verbatim>\<open>numpy.finfo(float).eps * 4.0\<close>.
\<close>

definition EPS :: real where
  "EPS = 4 / 2 ^ 52"

definition qdot :: "quat \<Rightarrow> quat \<Rightarrow> real" where
  "qdot a b = qx a * qx b + qy a * qy b + qz a * qz b + qw a * qw b"

definition qscale :: "quat \<Rightarrow> real \<Rightarrow> quat" where
  "qscale q s = Quat (qx q * s) (qy q * s) (qz q * s) (qw q * s)"

text \<open>
  \<^verbatim>\<open>quaternion_matrix\<close>: a quaternion whose squared norm is below \<^verbatim>\<open>_EPS\<close> gives the identity;
  any other is scaled by \<^verbatim>\<open>sqrt(2 / nq)\<close> and the matrix is read off the outer product
  of the scaled array with itself.
\<close>

definition quaternion_matrix :: "quat \<Rightarrow> mat4" where
  "quaternion_matrix quaternion =
     (let nq = qdot quaternion quaternion in
      if nq < EPS then eye4
      else
        let q = qscale quaternion (sqrt (2 / nq));
            x = qx q; y = qy q; z = qz q; w = qw q
        in Mat4
          (1 - y * y - z * z) (x * y - z * w) (x * z + y * w) 0
          (x * y + z * w) (1 - x * x - z * z) (y * z - x * w) 0
          (x * z - y * w) (y * z + x * w) (1 - x * x - y * y) 0
          0 0 0 1)"

text \<open>\<^verbatim>\<open>q[i] = v\<close> on an array of four.\<close>

definition q_upd :: "quat \<Rightarrow> nat \<Rightarrow> real \<Rightarrow> quat" where
  "q_upd q i v =
     (if i = 0 then Quat v (qy q) (qz q) (qw q)
      else if i = 1 then Quat (qx q) v (qz q) (qw q)
      else if i = 2 then Quat (qx q) (qy q) v (qw q)
      else Quat (qx q) (qy q) (qz q) v)"

text \<open>
  \<^verbatim>\<open>quaternion_from_matrix\<close>. The array from \<^verbatim>\<open>numpy.empty\<close> is written at all four places
  on either branch, so its first content (here zeros) is never read. \<^verbatim>\<open>math.sqrt\<close> raises
  \<^verbatim>\<open>ValueError\<close> on a negative argument, and the float division raises
  \<^verbatim>\<open>ZeroDivisionError\<close> on a zero root.
\<close>

definition quaternion_from_matrix :: "mat4 \<Rightarrow> error + quat" where
  "quaternion_from_matrix M =
     (let q = Quat 0 0 0 0;
          t = m00 M + m11 M + m22 M + m33 M;
          (q, t) =
            (if t > m33 M then
               (q_upd (q_upd (q_upd (q_upd q 3 t) 2 (m10 M - m01 M)) 1 (m02 M - m20 M)) 0
                  (m21 M - m12 M), t)
             else
               let (i, j, k) = (0, 1, 2);
                   (i, j, k) = (if m11 M > m00 M then (1, 2, 0) else (i, j, k));
                   (i, j, k) = (if m22 M > mat_at M i i then (2, 0, 1) else (i, j, k));
                   t = mat_at M i i - (mat_at M j j + mat_at M k k) + m33 M;
                   q = q_upd q i t;
                   q = q_upd q j (mat_at M i j + mat_at M j i);
                   q = q_upd q k (mat_at M k i + mat_at M i k);
                   q = q_upd q 3 (mat_at M k j - mat_at M j k)
               in (q, t))
      in if t * m33 M < 0 then Inl ValueError
         else if sqrt (t * m33 M) = 0 then Inl ZeroDivisionError
         else Inr (qscale q (0.5 / sqrt (t * m33 M))))"

text \<open>
  \<^verbatim>\<open>quaternion_multiply\<close> and \<^verbatim>\<open>quaternion_conjugate\<close>. First what they compute from the
  floats, \<open>qmul\<close> and \<open>qconj\<close>; then the calls, which get at the floats as the library
  does. \<^verbatim>\<open>quaternion_multiply\<close> unpacks \<^verbatim>\<open>x0, y0, z0, w0 = quaternion0\<close> and then
  \<^verbatim>\<open>quaternion1\<close>: \<^verbatim>\<open>TypeError\<close> for an object that cannot be iterated, \<^verbatim>\<open>ValueError\<close> for
  a sequence of another length than four. \<^verbatim>\<open>quaternion_conjugate\<close> indexes
  \<^verbatim>\<open>quaternion[0]\<close> to \<^verbatim>\<open>quaternion[3]\<close>: \<^verbatim>\<open>TypeError\<close> for an object that cannot be
  indexed, \<^verbatim>\<open>IndexError\<close> for a sequence shorter than four.
\<close>

definition qmul :: "quat \<Rightarrow> quat \<Rightarrow> quat" where
  "qmul quaternion1 quaternion0 =
     (let x0 = qx quaternion0; y0 = qy quaternion0; z0 = qz quaternion0; w0 = qw quaternion0;
          x1 = qx quaternion1; y1 = qy quaternion1; z1 = qz quaternion1; w1 = qw quaternion1
      in Quat
        (x1 * w0 + y1 * z0 - z1 * y0 + w1 * x0)
        (- x1 * z0 + y1 * w0 + z1 * x0 + w1 * y0)
        (x1 * y0 - y1 * x0 + z1 * w0 + w1 * z0)
        (- x1 * x0 - y1 * y0 - z1 * z0 + w1 * w0))"

definition qconj :: "quat \<Rightarrow> quat" where
  "qconj quaternion =
     Quat (- qx quaternion) (- qy quaternion) (- qz quaternion) (qw quaternion)"

definition unpack4 :: "pyvalue \<Rightarrow> error + quat" where
  "unpack4 v =
     (case v of
        FloatSeq [x, y, z, w] \<Rightarrow> Inr (Quat x y z w)
      | FloatSeq _ \<Rightarrow> Inl ValueError
      | _ \<Rightarrow> Inl TypeError)"

definition index4 :: "pyvalue \<Rightarrow> error + quat" where
  "index4 v =
     (case v of
        FloatSeq xs \<Rightarrow>
          if length xs < 4 then Inl IndexError
          else Inr (Quat (xs ! 0) (xs ! 1) (xs ! 2) (xs ! 3))
      | _ \<Rightarrow> Inl TypeError)"

definition quaternion_multiply :: "pyvalue \<Rightarrow> pyvalue \<Rightarrow> error + quat" where
  "quaternion_multiply quaternion1 quaternion0 =
     (case unpack4 quaternion0 of
        Inl e \<Rightarrow> Inl e
      | Inr q0 \<Rightarrow>
          (case unpack4 quaternion1 of
             Inl e \<Rightarrow> Inl e
           | Inr q1 \<Rightarrow> Inr (qmul q1 q0)))"

definition quaternion_conjugate :: "pyvalue \<Rightarrow> error + quat" where
  "quaternion_conjugate quaternion =
     (case index4 quaternion of
        Inl e \<Rightarrow> Inl e
      | Inr q \<Rightarrow> Inr (qconj q))"

text \<open>The array of four floats that either function returns, as a value.\<close>

definition array4 :: "quat \<Rightarrow> pyvalue" where
  "array4 q = FloatSeq [qx q, qy q, qz q, qw q]"

section \<open>The conversions of the program\<close>

text \<open>
  The Python objects that \<^verbatim>\<open>pose2np\<close> can be given. The function tells them apart with
  \<^verbatim>\<open>isinstance\<close>. Line 136 means to hand it a \<^verbatim>\<open>Pose\<close> (the model state) and the object
  kept as the initial state, which lines 121 to 127 mean to build as a \<^verbatim>\<open>PoseStamped\<close>;
  \<^verbatim>\<open>None\<close> is an object like any other. A stamped object is written down with the
  attributes that those lines name; \<^verbatim>\<open>pose2np\<close> reads none of them.
\<close>

type_synonym time = nat

record header =
  stamp :: time
  frame_id :: string

record stamped =
  header :: header
  child_frame_id :: string
  transform :: transform

datatype pyobj =
    PoseObj pose
  | TransformObj transform
  | PoseStampedObj stamped
  | TransformStampedObj stamped
  | NoneObj

text \<open>The slice assignments \<^verbatim>\<open>a[:3, :3] = b[:3, :3]\<close> and \<^verbatim>\<open>a[:3, 3] = [x, y, z]\<close>.\<close>

definition set_block33 :: "mat4 \<Rightarrow> mat4 \<Rightarrow> mat4" where
  "set_block33 a b = Mat4
     (m00 b) (m01 b) (m02 b) (m03 a)
     (m10 b) (m11 b) (m12 b) (m13 a)
     (m20 b) (m21 b) (m22 b) (m23 a)
     (m30 a) (m31 a) (m32 a) (m33 a)"

definition set_col3 :: "mat4 \<Rightarrow> xyz \<Rightarrow> mat4" where
  "set_col3 a v = Mat4
     (m00 a) (m01 a) (m02 a) (cx v)
     (m10 a) (m11 a) (m12 a) (cy v)
     (m20 a) (m21 a) (m22 a) (cz v)
     (m30 a) (m31 a) (m32 a) (m33 a)"

text \<open>
  \<^verbatim>\<open>pose2np\<close>: two \<^verbatim>\<open>if isinstance\<close> statements in a row, no \<^verbatim>\<open>else\<close>; an object of neither
  class leaves \<^verbatim>\<open>np.eye(4)\<close> as it is. For a \<^verbatim>\<open>Transform\<close> the whole array is overwritten
  (\<^verbatim>\<open>a[:, :] = ...\<close>) before the translation is stored.
\<close>

definition pose2np :: "pyobj \<Rightarrow> mat4" where
  "pose2np p =
     (let a = eye4;
          a = (case p of
                 PoseObj ps \<Rightarrow>
                   let q = orientation ps;
                       qmat = quaternion_matrix q;
                       a = set_block33 a qmat
                   in set_col3 a (position ps)
               | _ \<Rightarrow> a);
          a = (case p of
                 TransformObj tr \<Rightarrow>
                   let q = rotation tr;
                       a = quaternion_matrix q
                   in set_col3 a (translation tr)
               | _ \<Rightarrow> a)
      in a)"

text \<open>
  \<^verbatim>\<open>np2trf\<close> and \<^verbatim>\<open>np2pose\<close> write into the object they are given; the models return the
  object written. An exception of \<^verbatim>\<open>quaternion_from_matrix\<close> leaves the function.
\<close>

definition np2trf :: "mat4 \<Rightarrow> transform \<Rightarrow> error + transform" where
  "np2trf a t =
     (let t = t\<lparr>translation := XYZ (m03 a) (m13 a) (m23 a)\<rparr> in
      case quaternion_from_matrix a of
        Inl e \<Rightarrow> Inl e
      | Inr q \<Rightarrow> Inr (t\<lparr>rotation := Quat (qx q) (qy q) (qz q) (qw q)\<rparr>))"

definition np2pose :: "mat4 \<Rightarrow> pose \<Rightarrow> error + pose" where
  "np2pose a p =
     (let p = p\<lparr>position := XYZ (m03 a) (m13 a) (m23 a)\<rparr> in
      case quaternion_from_matrix a of
        Inl e \<Rightarrow> Inl e
      | Inr q \<Rightarrow> Inr (p\<lparr>orientation := Quat (qx q) (qy q) (qz q) (qw q)\<rparr>))"

text \<open>\<^verbatim>\<open>Transform()\<close>: a fresh message, every field zero.\<close>

definition Transform0 :: transform where
  "Transform0 = \<lparr>translation = XYZ 0 0 0, rotation = Quat 0 0 0 0\<rparr>"

definition transform_between_poses :: "pyobj \<Rightarrow> pyobj \<Rightarrow> error + transform" where
  "transform_between_poses pb pf =
     (let g_sb = pose2np pb;
          g_sf = pose2np pf
      in case linalg_inv g_sb of
           Inl e \<Rightarrow> Inl e
         | Inr g_bs \<Rightarrow>
             let g = mat_mul g_bs g_sf;
                 t = Transform0
             in np2trf g t)"

text \<open>
  \<^verbatim>\<open>transform_vector\<close>. Its first argument is any object with a \<^verbatim>\<open>rotation\<close>: a
  \<^verbatim>\<open>Transform\<close> message holds a \<^verbatim>\<open>Vector3\<close> and a \<^verbatim>\<open>Quaternion\<close> message in its two
  slots (\<open>message\<close>), and a slot can be given any other object. \<^verbatim>\<open>list(v1)\<close> raises
  \<^verbatim>\<open>TypeError\<close> for a message, which cannot be iterated; \<^verbatim>\<open>q2\<close> is the list with \<^verbatim>\<open>0.0\<close>
  appended. The arguments of the outer product are evaluated left to right, and the
  result is its first three entries (\<^verbatim>\<open>[:3]\<close>). The flag is the source's \<^verbatim>\<open>inverse\<close>.
\<close>

record slots =
  translation_slot :: pyvalue
  rotation_slot :: pyvalue

definition message :: "transform \<Rightarrow> slots" where
  "message t =
     \<lparr>translation_slot = Vector3Msg (translation t), rotation_slot = QuaternionMsg (rotation t)\<rparr>"

definition list_of :: "pyvalue \<Rightarrow> error + real list" where
  "list_of v = (case v of FloatSeq xs \<Rightarrow> Inr xs | _ \<Rightarrow> Inl TypeError)"

definition first3 :: "quat \<Rightarrow> real list" where
  "first3 q = take 3 [qx q, qy q, qz q, qw q]"

definition transform_vector :: "slots \<Rightarrow> pyvalue \<Rightarrow> bool \<Rightarrow> error + real list" where
  "transform_vector t v1 inverse_flag =
     (let q1 = rotation_slot t in
      case list_of v1 of
        Inl e \<Rightarrow> Inl e
      | Inr q2 \<Rightarrow>
          let q2 = FloatSeq (q2 @ [0]) in
          if inverse_flag then
            (case quaternion_conjugate q1 of
               Inl e \<Rightarrow> Inl e
             | Inr c \<Rightarrow>
                 (case quaternion_multiply q2 q1 of
                    Inl e \<Rightarrow> Inl e
                  | Inr m \<Rightarrow>
                      (case quaternion_multiply (array4 c) (array4 m) of
                         Inl e \<Rightarrow> Inl e
                       | Inr r \<Rightarrow> Inr (first3 r))))
          else
            (case quaternion_multiply q1 q2 of
               Inl e \<Rightarrow> Inl e
             | Inr m \<Rightarrow>
                 (case quaternion_conjugate q1 of
                    Inl e \<Rightarrow> Inl e
                  | Inr c \<Rightarrow>
                      (case quaternion_multiply (array4 m) (array4 c) of
                         Inl e \<Rightarrow> Inl e
                       | Inr r \<Rightarrow> Inr (first3 r)))))"

section \<open>The node\<close>

text \<open>
  \<^verbatim>\<open>OdometryPublisher\<close>. Its three fields that the loop and the callback read and write
  are the state; what it would send through its two broadcasters and its publisher is the
  output.

  The module binds, by its imports, \<^verbatim>\<open>np\<close>, \<^verbatim>\<open>rospy\<close>, \<^verbatim>\<open>tf2_ros\<close>, \<^verbatim>\<open>trf\<close>, \<^verbatim>\<open>Odometry\<close>,
  \<^verbatim>\<open>Transform\<close>, \<^verbatim>\<open>Pose\<close>, \<^verbatim>\<open>PoseWithCovariance\<close>, \<^verbatim>\<open>Twist\<close>, \<^verbatim>\<open>TwistWithCovariance\<close>,
  \<^verbatim>\<open>ModelState\<close> and \<^verbatim>\<open>ModelStates\<close>, and by its definitions the five functions and the
  class. \<^verbatim>\<open>PoseStamped\<close> and \<^verbatim>\<open>TransformStamped\<close> are bound nowhere, and neither is the
  \<^verbatim>\<open>ux_idx\<close> that the callback reads after it has stored \<^verbatim>\<open>aux_idx\<close>: looking one of them
  up raises \<^verbatim>\<open>NameError\<close>.
\<close>

record node =
  model_state :: "pose option"
  model_twist :: "twist option"
  initial_state :: "pyobj option"

record odometry =
  odom_header :: header
  odom_child_frame_id :: string
  odom_pose :: pose
  odom_twist :: twist

datatype effect =
    StaticTransform stamped
  | SendTransform stamped
  | Publish odometry

text \<open>
  \<^verbatim>\<open>__init__\<close>. Line 100 registers the callback, lines 104 to 106 set the three fields to
  \<^verbatim>\<open>None\<close>, and line 107 calls \<^verbatim>\<open>PoseStamped()\<close>, which raises \<^verbatim>\<open>NameError\<close>: the
  constructor gives no instance back, and \<^verbatim>\<open>aux.main()\<close> of the last lines is not
  reached. \<open>init_node\<close> is the object as line 106 leaves it, the one the registered
  callback belongs to.
\<close>

definition init_node :: node where
  "init_node = \<lparr>model_state = None, model_twist = None, initial_state = None\<rparr>"

definition OdometryPublisher_init :: "node \<times> error option" where
  "OdometryPublisher_init = (init_node, Some NameError)"

text \<open>
  One pass through the body of \<^verbatim>\<open>while not rospy.is_shutdown()\<close> in \<^verbatim>\<open>main\<close>, on a node
  whose fields hold whatever they hold. The result is the node after the pass, what was
  sent in order, and the exception that ended the pass if one did. With no reference
  and a model state, the first statement of the latching branch is \<^verbatim>\<open>t = PoseStamped()\<close>
  (line 121): \<^verbatim>\<open>NameError\<close>, before \<^verbatim>\<open>self.initial_state = t\<close> and before
  \<^verbatim>\<open>self.brStatic.sendTransform(t)\<close>. With a reference and a model state, the first
  statement of the publishing branch is \<^verbatim>\<open>t = TransformStamped()\<close> (line 131):
  \<^verbatim>\<open>NameError\<close>, before anything is sent. With no model state neither branch is
  entered.
\<close>

definition main_body :: "node \<Rightarrow> node \<times> effect list \<times> error option" where
  "main_body self =
     (let out = [];
          exc =
            (if initial_state self = None then
               (if model_state self \<noteq> None then Some NameError else None)
             else None)
      in case exc of
           Some e \<Rightarrow> (self, out, Some e)
         | None \<Rightarrow>
             if model_state self \<noteq> None then (self, out, Some NameError)
             else (self, out, None))"

text \<open>
  \<^verbatim>\<open>callback\<close>, run by the subscriber for each \<^verbatim>\<open>ModelStates\<close> message. \<^verbatim>\<open>list.index\<close> raises
  \<^verbatim>\<open>ValueError\<close> when the name is not in the list. When it is, line 163 evaluates
  \<^verbatim>\<open>data.pose[ux_idx]\<close> before it assigns: \<^verbatim>\<open>NameError\<close>, and nothing is stored.
\<close>

record model_states =
  ms_name :: "string list"
  ms_pose :: "pose list"
  ms_twist :: "twist list"

fun index :: "'a list \<Rightarrow> 'a \<Rightarrow> nat option" where
  "index [] v = None"
| "index (x # xs) v = (if x = v then Some 0 else map_option Suc (index xs v))"

definition callback :: "model_states \<Rightarrow> node \<Rightarrow> node \<times> error option" where
  "callback data self =
     (case index (ms_name data) ''puzzlebot'' of
        None \<Rightarrow> (self, Some ValueError)
      | Some aux_idx \<Rightarrow> (self, Some NameError))"

text \<open>
  A node at work: messages arrive (the subscriber runs \<^verbatim>\<open>callback\<close>; an exception in
  it is the subscriber's, the fields keep what they held) and the loop makes its passes,
  in some order. An exception in a pass ends the loop: later passes do not happen.
\<close>

datatype event = Message model_states | Pass

record world =
  the_node :: node
  sent :: "effect list"
  ended :: "error option"

definition init_world :: world where
  "init_world = \<lparr>the_node = init_node, sent = [], ended = None\<rparr>"

definition step :: "world \<Rightarrow> event \<Rightarrow> world" where
  "step w ev =
     (case ev of
        Message data \<Rightarrow> w\<lparr>the_node := fst (callback data (the_node w))\<rparr>
      | Pass \<Rightarrow>
          if ended w \<noteq> None then w
          else
            let (self, out, exc) = main_body (the_node w)
            in \<lparr>the_node = self, sent = sent w @ out, ended = exc\<rparr>)"

definition run :: "world \<Rightarrow> event list \<Rightarrow> world" where
  "run w evs = foldl step w evs"

section \<open>Notions of the specification\<close>

text \<open>
  A rigid transform as the specification describes it: the rows of the 3x3 block are
  orthonormal, and the bottom row is \<open>[0, 0, 0, 1]\<close>.
\<close>

definition orthonormal_block :: "mat4 \<Rightarrow> bool" where
  "orthonormal_block g \<longleftrightarrow>
     m00 g * m00 g + m01 g * m01 g + m02 g * m02 g = 1 \<and>
     m10 g * m10 g + m11 g * m11 g + m12 g * m12 g = 1 \<and>
     m20 g * m20 g + m21 g * m21 g + m22 g * m22 g = 1 \<and>
     m00 g * m10 g + m01 g * m11 g + m02 g * m12 g = 0 \<and>
     m00 g * m20 g + m01 g * m21 g + m02 g * m22 g = 0 \<and>
     m10 g * m20 g + m11 g * m21 g + m12 g * m22 g = 0"

definition rigid :: "mat4 \<Rightarrow> bool" where
  "rigid g \<longleftrightarrow>
     orthonormal_block g \<and> m30 g = 0 \<and> m31 g = 0 \<and> m32 g = 0 \<and> m33 g = 1"

text \<open>
  The analytic inverse of the specification, \<open>[[R\<^sup>T, - R\<^sup>T t], [0, 1]]\<close>, written after
  the specification's words; the program itself calls the general inverse.
\<close>

definition rigid_inverse :: "mat4 \<Rightarrow> mat4" where
  "rigid_inverse g = Mat4
     (m00 g) (m10 g) (m20 g) (- (m00 g * m03 g + m10 g * m13 g + m20 g * m23 g))
     (m01 g) (m11 g) (m21 g) (- (m01 g * m03 g + m11 g * m13 g + m21 g * m23 g))
     (m02 g) (m12 g) (m22 g) (- (m02 g * m03 g + m12 g * m13 g + m22 g * m23 g))
     0 0 0 1"

text \<open>
  The rotation matrix of a unit quaternion, and the unit quaternion that
  \<^verbatim>\<open>quaternion_matrix\<close> reads a quaternion as: itself over its norm, or the identity
  rotation below the threshold. \<open>finish\<close> is the last statement of
  \<^verbatim>\<open>quaternion_from_matrix\<close>, the scaling by \<^verbatim>\<open>0.5 / math.sqrt(t * M[3, 3])\<close>.
\<close>

definition rot_of :: "quat \<Rightarrow> mat4" where
  "rot_of u =
     (let x = qx u; y = qy u; z = qz u; w = qw u
      in Mat4
        (1 - 2 * (y * y + z * z)) (2 * (x * y - z * w)) (2 * (x * z + y * w)) 0
        (2 * (x * y + z * w)) (1 - 2 * (x * x + z * z)) (2 * (y * z - x * w)) 0
        (2 * (x * z - y * w)) (2 * (y * z + x * w)) (1 - 2 * (x * x + y * y)) 0
        0 0 0 1)"

definition versor :: "quat \<Rightarrow> quat" where
  "versor q = (if qdot q q < EPS then Quat 0 0 0 1 else qscale q (1 / sqrt (qdot q q)))"

definition finish :: "quat \<Rightarrow> real \<Rightarrow> mat4 \<Rightarrow> error + quat" where
  "finish q t M =
     (if t * m33 M < 0 then Inl ValueError
      else if sqrt (t * m33 M) = 0 then Inl ZeroDivisionError
      else Inr (qscale q (0.5 / sqrt (t * m33 M))))"

text \<open>What \<^verbatim>\<open>isinstance(p, Pose)\<close> and \<^verbatim>\<open>isinstance(p, Transform)\<close> answer.\<close>

definition isinstance_Pose :: "pyobj \<Rightarrow> bool" where
  "isinstance_Pose p = (case p of PoseObj _ \<Rightarrow> True | _ \<Rightarrow> False)"

definition isinstance_Transform :: "pyobj \<Rightarrow> bool" where
  "isinstance_Transform p = (case p of TransformObj _ \<Rightarrow> True | _ \<Rightarrow> False)"

text \<open>
  The quaternion sandwich as the specification writes it: the Hamilton product in its
  scalar and vector form, the vector lifted to a pure quaternion, the conjugate, and the
  two products \<open>q \<otimes> v \<otimes> q\<^sup>*\<close> and \<open>q\<^sup>* \<otimes> v \<otimes> q\<close>.
\<close>

definition vec_part :: "quat \<Rightarrow> xyz" where
  "vec_part q = XYZ (qx q) (qy q) (qz q)"

definition pure_quat :: "xyz \<Rightarrow> quat" where
  "pure_quat v = Quat (cx v) (cy v) (cz v) 0"

definition vdot :: "xyz \<Rightarrow> xyz \<Rightarrow> real" where
  "vdot u v = cx u * cx v + cy u * cy v + cz u * cz v"

definition vcross :: "xyz \<Rightarrow> xyz \<Rightarrow> xyz" where
  "vcross u v = XYZ (cy u * cz v - cz u * cy v) (cz u * cx v - cx u * cz v) (cx u * cy v - cy u * cx v)"

definition hamilton :: "quat \<Rightarrow> quat \<Rightarrow> quat" where
  "hamilton p q =
     (let s = qw p; u = vec_part p; t = qw q; v = vec_part q; c = vcross u v
      in Quat (s * cx v + t * cx u + cx c) (s * cy v + t * cy u + cy c) (s * cz v + t * cz u + cz c)
              (s * t - vdot u v))"

definition q_star :: "quat \<Rightarrow> quat" where
  "q_star q = Quat (- qx q) (- qy q) (- qz q) (qw q)"

definition sandwich :: "quat \<Rightarrow> xyz \<Rightarrow> xyz" where
  "sandwich q v = vec_part (hamilton q (hamilton (pure_quat v) (q_star q)))"

definition sandwich_inverse :: "quat \<Rightarrow> xyz \<Rightarrow> xyz" where
  "sandwich_inverse q v = vec_part (hamilton (q_star q) (hamilton (pure_quat v) q))"

text \<open>\<^verbatim>\<open>Pose()\<close>: a fresh message, every field zero.\<close>

definition Pose0 :: pose where
  "Pose0 = \<lparr>position = XYZ 0 0 0, orientation = Quat 0 0 0 0\<rparr>"

text \<open>The three coordinates as the list that \<^verbatim>\<open>[:3]\<close> gives.\<close>

definition coords :: "xyz \<Rightarrow> real list" where
  "coords v = [cx v, cy v, cz v]"

section \<open>Matrices\<close>

lemma cofactor_simps:
  "cofactor M 0 0 = det3 (m11 M) (m12 M) (m13 M) (m21 M) (m22 M) (m23 M) (m31 M) (m32 M) (m33 M)"
  "cofactor M 0 1 = - det3 (m10 M) (m12 M) (m13 M) (m20 M) (m22 M) (m23 M) (m30 M) (m32 M) (m33 M)"
  "cofactor M 0 2 = det3 (m10 M) (m11 M) (m13 M) (m20 M) (m21 M) (m23 M) (m30 M) (m31 M) (m33 M)"
  "cofactor M 0 3 = - det3 (m10 M) (m11 M) (m12 M) (m20 M) (m21 M) (m22 M) (m30 M) (m31 M) (m32 M)"
  "cofactor M 1 0 = - det3 (m01 M) (m02 M) (m03 M) (m21 M) (m22 M) (m23 M) (m31 M) (m32 M) (m33 M)"
  "cofactor M 1 1 = det3 (m00 M) (m02 M) (m03 M) (m20 M) (m22 M) (m23 M) (m30 M) (m32 M) (m33 M)"
  "cofactor M 1 2 = - det3 (m00 M) (m01 M) (m03 M) (m20 M) (m21 M) (m23 M) (m30 M) (m31 M) (m33 M)"
  "cofactor M 1 3 = det3 (m00 M) (m01 M) (m02 M) (m20 M) (m21 M) (m22 M) (m30 M) (m31 M) (m32 M)"
  "cofactor M 2 0 = det3 (m01 M) (m02 M) (m03 M) (m11 M) (m12 M) (m13 M) (m31 M) (m32 M) (m33 M)"
  "cofactor M 2 1 = - det3 (m00 M) (m02 M) (m03 M) (m10 M) (m12 M) (m13 M) (m30 M) (m32 M) (m33 M)"
  "cofactor M 2 2 = det3 (m00 M) (m01 M) (m03 M) (m10 M) (m11 M) (m13 M) (m30 M) (m31 M) (m33 M)"
  "cofactor M 2 3 = - det3 (m00 M) (m01 M) (m02 M) (m10 M) (m11 M) (m12 M) (m30 M) (m31 M) (m32 M)"
  "cofactor M 3 0 = - det3 (m01 M) (m02 M) (m03 M) (m11 M) (m12 M) (m13 M) (m21 M) (m22 M) (m23 M)"
  "cofactor M 3 1 = det3 (m00 M) (m02 M) (m03 M) (m10 M) (m12 M) (m13 M) (m20 M) (m22 M) (m23 M)"
  "cofactor M 3 2 = - det3 (m00 M) (m01 M) (m03 M) (m10 M) (m11 M) (m13 M) (m20 M) (m21 M) (m23 M)"
  "cofactor M 3 3 = det3 (m00 M) (m01 M) (m02 M) (m10 M) (m11 M) (m12 M) (m20 M) (m21 M) (m22 M)"
  by (simp_all add: cofactor_def minor_def others_def mat_at_def)

lemma linalg_inv_affine:
  assumes "det3 a b c d e f g h i \<noteq> 0"
  shows "linalg_inv (Mat4 a b c tx  d e f ty  g h i tz  0 0 0 1) =
     Inr (Mat4
       ((e * i - f * h) / det3 a b c d e f g h i)
       ((c * h - b * i) / det3 a b c d e f g h i)
       ((b * f - c * e) / det3 a b c d e f g h i)
       (- det3 b c tx e f ty h i tz / det3 a b c d e f g h i)
       ((f * g - d * i) / det3 a b c d e f g h i)
       ((a * i - c * g) / det3 a b c d e f g h i)
       ((c * d - a * f) / det3 a b c d e f g h i)
       (det3 a c tx d f ty g i tz / det3 a b c d e f g h i)
       ((d * h - e * g) / det3 a b c d e f g h i)
       ((b * g - a * h) / det3 a b c d e f g h i)
       ((a * e - b * d) / det3 a b c d e f g h i)
       (- det3 a b tx d e ty g h tz / det3 a b c d e f g h i)
       0 0 0 1)"
proof -
  have d4: "det4 (Mat4 a b c tx  d e f ty  g h i tz  0 0 0 1) = det3 a b c d e f g h i"
    unfolding det4_def cofactor_simps by (simp add: det3_def algebra_simps)
  show ?thesis
    unfolding linalg_inv_def d4 Let_def cofactor_simps using assms
    by (simp add: det3_def algebra_simps)
qed

lemma det3_square:
  "det3 a b c d e f g h i * det3 a b c d e f g h i =
     det3 (a*a+b*b+c*c) (a*d+b*e+c*f) (a*g+b*h+c*i)
          (a*d+b*e+c*f) (d*d+e*e+f*f) (d*g+e*h+f*i)
          (a*g+b*h+c*i) (d*g+e*h+f*i) (g*g+h*h+i*i)"
  by (simp add: det3_def algebra_simps)

lemma orthonormal_cofactors:
  fixes a b c d e f g h i :: real
  assumes "a*a+b*b+c*c = 1" "d*d+e*e+f*f = 1" "g*g+h*h+i*i = 1"
    "a*d+b*e+c*f = 0" "a*g+b*h+c*i = 0" "d*g+e*h+f*i = 0"
  defines "D \<equiv> det3 a b c d e f g h i"
  shows "D * D = 1"
    and "e*i - f*h = D * a" and "f*g - d*i = D * b" and "d*h - e*g = D * c"
    and "c*h - b*i = D * d" and "a*i - c*g = D * e" and "b*g - a*h = D * f"
    and "b*f - c*e = D * g" and "c*d - a*f = D * h" and "a*e - b*d = D * i"
proof -
  show "D * D = 1" unfolding D_def det3_square assms(1-6) by (simp add: det3_def)
  show "e*i - f*h = D * a" using assms(1-6) unfolding D_def det3_def by algebra
  show "f*g - d*i = D * b" using assms(1-6) unfolding D_def det3_def by algebra
  show "d*h - e*g = D * c" using assms(1-6) unfolding D_def det3_def by algebra
  show "c*h - b*i = D * d" using assms(1-6) unfolding D_def det3_def by algebra
  show "a*i - c*g = D * e" using assms(1-6) unfolding D_def det3_def by algebra
  show "b*g - a*h = D * f" using assms(1-6) unfolding D_def det3_def by algebra
  show "b*f - c*e = D * g" using assms(1-6) unfolding D_def det3_def by algebra
  show "c*d - a*f = D * h" using assms(1-6) unfolding D_def det3_def by algebra
  show "a*e - b*d = D * i" using assms(1-6) unfolding D_def det3_def by algebra
qed

lemma linalg_inv_rigid:
  assumes "rigid g"
  shows "linalg_inv g = Inr (rigid_inverse g)"
proof (cases g)
  case (Mat4 a b c tx d e f ty g' h i tz z0 z1 z2 o3)
  from assms have z: "z0 = 0" "z1 = 0" "z2 = 0" "o3 = 1"
    and on: "a*a+b*b+c*c = 1" "d*d+e*e+f*f = 1" "g'*g'+h*h+i*i = 1"
      "a*d+b*e+c*f = 0" "a*g'+b*h+c*i = 0" "d*g'+e*h+f*i = 0"
    by (simp_all add: rigid_def orthonormal_block_def Mat4)
  define D where "D = det3 a b c d e f g' h i"
  note cf = orthonormal_cofactors[OF on, folded D_def]
  have D0: "D \<noteq> 0" using cf(1) by auto
  have Dinv: "x * D / D = x" for x using D0 by simp
  have t1: "det3 b c tx e f ty h i tz = D * (a * tx + d * ty + g' * tz)"
    using cf(2-) unfolding det3_def by algebra
  have t2: "det3 a c tx d f ty g' i tz = - D * (b * tx + e * ty + h * tz)"
    using cf(2-) unfolding det3_def by algebra
  have t3: "det3 a b tx d e ty g' h tz = D * (c * tx + f * ty + i * tz)"
    using cf(2-) unfolding det3_def by algebra
  show ?thesis
    unfolding Mat4 z linalg_inv_affine[OF D0[unfolded D_def]]
    unfolding D_def[symmetric] cf(2-) t1 t2 t3
    using D0 by (simp add: rigid_inverse_def)
qed

lemma mat_mul_rigid_inverse:
  assumes "rigid g"
  shows "mat_mul g (rigid_inverse g) = eye4"
proof (cases g)
  case (Mat4 a b c tx d e f ty g' h i tz z0 z1 z2 o3)
  from assms have z: "z0 = 0" "z1 = 0" "z2 = 0" "o3 = 1"
    and on: "a*a+b*b+c*c = 1" "d*d+e*e+f*f = 1" "g'*g'+h*h+i*i = 1"
      "a*d+b*e+c*f = 0" "a*g'+b*h+c*i = 0" "d*g'+e*h+f*i = 0"
    by (simp_all add: rigid_def orthonormal_block_def Mat4)
  have tr: "a * (- (a * tx) - d * ty - g' * tz) + b * (- (b * tx) - e * ty - h * tz) + c * (- (c * tx) - f * ty - i * tz) + tx = 0"
    "d * (- (a * tx) - d * ty - g' * tz) + e * (- (b * tx) - e * ty - h * tz) + f * (- (c * tx) - f * ty - i * tz) + ty = 0"
    "g' * (- (a * tx) - d * ty - g' * tz) + h * (- (b * tx) - e * ty - h * tz) + i * (- (c * tx) - f * ty - i * tz) + tz = 0"
    using on by algebra+
  have sym: "d*a+e*b+f*c = 0" "g'*a+h*b+i*c = 0" "g'*d+h*e+i*f = 0"
    using on by (simp_all add: mult.commute)
  show ?thesis
    unfolding Mat4 z
    by (simp add: mat_mul_def rigid_inverse_def eye4_def on sym tr)
qed

section \<open>Quaternions and rotation matrices\<close>

lemma EPS_pos: "0 < EPS"
  by (simp add: EPS_def)

lemma EPS_le1: "EPS \<le> 1"
  by (simp add: EPS_def)

lemma versor_unit: "qdot (versor q) (versor q) = 1"
proof (cases "qdot q q < EPS")
  case True
  then show ?thesis by (simp add: versor_def qdot_def)
next
  case False
  then have pos: "0 < qdot q q" using EPS_pos by linarith
  have "qdot (qscale q s) (qscale q s) = s * s * qdot q q" for s
    by (simp add: qdot_def qscale_def algebra_simps)
  then have "qdot (versor q) (versor q) = (1 / sqrt (qdot q q)) * (1 / sqrt (qdot q q)) * qdot q q"
    using False by (simp add: versor_def)
  also have "\<dots> = 1" using pos by (simp add: field_simps)
  finally show ?thesis .
qed

lemma quaternion_matrix_versor: "quaternion_matrix q = rot_of (versor q)"
proof (cases "qdot q q < EPS")
  case True
  then show ?thesis by (simp add: quaternion_matrix_def versor_def rot_of_def eye4_def)
next
  case False
  then have pos: "0 < qdot q q" using EPS_pos by linarith
  define n where "n = qdot q q"
  have s2: "sqrt (2 / n) * sqrt (2 / n) = 2 / n" using pos by (simp add: n_def)
  have s1: "(1 / sqrt n) * (1 / sqrt n) = 1 / n" using pos by (simp add: n_def field_simps)
  have a: "(p * sqrt (2 / n)) * (r * sqrt (2 / n)) = 2 * ((p * (1 / sqrt n)) * (r * (1 / sqrt n)))" for p r
  proof -
    have "(p * sqrt (2 / n)) * (r * sqrt (2 / n)) = p * r * (sqrt (2 / n) * sqrt (2 / n))"
      by (simp add: algebra_simps)
    also have "\<dots> = 2 * (p * r * ((1 / sqrt n) * (1 / sqrt n)))" unfolding s2 s1 by simp
    finally show ?thesis by (simp add: algebra_simps)
  qed
  have "quaternion_matrix q = rot_of (qscale q (1 / sqrt n))"
    using False
    unfolding quaternion_matrix_def rot_of_def Let_def n_def[symmetric] qscale_def quat.sel a
    by (simp add: distrib_left right_diff_distrib)
  then show ?thesis using False by (simp add: versor_def n_def)
qed

lemma qfm_unfold:
  "quaternion_from_matrix M =
    (if m00 M + m11 M + m22 M + m33 M > m33 M then
       finish (Quat (m21 M - m12 M) (m02 M - m20 M) (m10 M - m01 M) (m00 M + m11 M + m22 M + m33 M))
         (m00 M + m11 M + m22 M + m33 M) M
     else if m11 M > m00 M then
       (if m22 M > m11 M then
          finish (Quat (m20 M + m02 M) (m12 M + m21 M) (m22 M - (m00 M + m11 M) + m33 M) (m10 M - m01 M))
            (m22 M - (m00 M + m11 M) + m33 M) M
        else
          finish (Quat (m01 M + m10 M) (m11 M - (m22 M + m00 M) + m33 M) (m12 M + m21 M) (m02 M - m20 M))
            (m11 M - (m22 M + m00 M) + m33 M) M)
     else
       (if m22 M > m00 M then
          finish (Quat (m20 M + m02 M) (m12 M + m21 M) (m22 M - (m00 M + m11 M) + m33 M) (m10 M - m01 M))
            (m22 M - (m00 M + m11 M) + m33 M) M
        else
          finish (Quat (m00 M - (m11 M + m22 M) + m33 M) (m01 M + m10 M) (m20 M + m02 M) (m21 M - m12 M))
            (m00 M - (m11 M + m22 M) + m33 M) M))"
  unfolding quaternion_from_matrix_def Let_def finish_def
  by (simp only: split_conv if_distrib[of "\<lambda>p. case p of (i, j, k) \<Rightarrow> _ i j k"] if_distrib[of "\<lambda>p. case p of (i, t) \<Rightarrow> _ i t"] prod.case q_upd_def mat_at_def quat.sel
       numeral_eq_iff num.distinct refl one_eq_numeral_iff numeral_eq_one_iff semiring_norm cong: if_cong)


lemma finish_scaled:
  assumes "c \<noteq> 0" "m33 M = 1"
  shows "finish (Quat (4 * c * x) (4 * c * y) (4 * c * z) (4 * c * w)) (4 * c * c) M =
     Inr (qscale (Quat x y z w) (sgn c))"
proof -
  have r: "sqrt (4 * c * c) = 2 * \<bar>c\<bar>"
  proof -
    have "sqrt (4 * c * c) = sqrt ((2 * c) * (2 * c))" by (simp add: algebra_simps)
    also have "\<dots> = \<bar>2 * c\<bar>" by (rule real_sqrt_abs2)
    finally show ?thesis by (simp add: abs_mult)
  qed
  have nn: "\<not> 4 * c * c < 0" using zero_le_square[of c] by (simp add: mult.assoc)
  have k: "4 * c * p * (0.5 / (2 * \<bar>c\<bar>)) = p * sgn c" for p
    using assms(1) by (simp add: sgn_real_def field_simps)
  have z: "2 * \<bar>c\<bar> \<noteq> 0" using assms(1) by simp
  show ?thesis
    unfolding finish_def assms(2) mult_1_right r qscale_def quat.sel k
    using nn z by (simp only: if_False sum.inject quat.inject simp_thms)
qed

lemma rot_of_neg: "rot_of (qscale u (- 1)) = rot_of u"
  by (simp add: rot_of_def qscale_def Let_def)

lemma qscale_one: "qscale u 1 = u"
  by (cases u) (simp add: qscale_def)

lemma rot_of_sgn: "c \<noteq> 0 \<Longrightarrow> rot_of (qscale u (sgn c)) = rot_of u"
  by (cases "0 < c") (simp_all add: sgn_real_def rot_of_neg qscale_one)

lemma unit_sgn: "c \<noteq> 0 \<Longrightarrow> qdot (qscale u (sgn c)) (qscale u (sgn c)) = qdot u u"
  by (cases "0 < c") (simp_all add: sgn_real_def qscale_def qdot_def)

lemma qfm_rot:
  assumes "qdot u u = 1"
  shows "\<exists>c. c \<noteq> 0 \<and> quaternion_from_matrix (set_col3 (rot_of u) t) = Inr (qscale u (sgn c))"
proof (cases u)
  case (Quat x y z w)
  define M where "M = set_col3 (rot_of u) t"
  from assms have un: "x * x + y * y + z * z + w * w = 1" by (simp add: Quat qdot_def)
  have sel: "m00 M = 1 - 2 * (y * y + z * z)" "m11 M = 1 - 2 * (x * x + z * z)"
    "m22 M = 1 - 2 * (x * x + y * y)" "m33 M = 1"
    "m01 M = 2 * (x * y - z * w)" "m02 M = 2 * (x * z + y * w)"
    "m10 M = 2 * (x * y + z * w)" "m12 M = 2 * (y * z - x * w)"
    "m20 M = 2 * (x * z - y * w)" "m21 M = 2 * (y * z + x * w)"
    by (simp_all add: M_def set_col3_def rot_of_def Quat)
  have tr: "m00 M + m11 M + m22 M + m33 M = 4 * w * w" unfolding sel using un by algebra
  have tx: "m00 M - (m11 M + m22 M) + m33 M = 4 * x * x" unfolding sel by (simp add: algebra_simps)
  have ty: "m11 M - (m22 M + m00 M) + m33 M = 4 * y * y" unfolding sel by (simp add: algebra_simps)
  have tz: "m22 M - (m00 M + m11 M) + m33 M = 4 * z * z" unfolding sel by (simp add: algebra_simps)
  have dw: "m21 M - m12 M = 4 * w * x" "m02 M - m20 M = 4 * w * y" "m10 M - m01 M = 4 * w * z"
    unfolding sel by (simp_all add: algebra_simps)
  have dx: "m01 M + m10 M = 4 * x * y" "m20 M + m02 M = 4 * x * z" "m21 M - m12 M = 4 * x * w"
    unfolding sel by (simp_all add: algebra_simps)
  have dy: "m01 M + m10 M = 4 * y * x" "m12 M + m21 M = 4 * y * z" "m02 M - m20 M = 4 * y * w"
    unfolding sel by (simp_all add: algebra_simps)
  have dz: "m20 M + m02 M = 4 * z * x" "m12 M + m21 M = 4 * z * y" "m10 M - m01 M = 4 * z * w"
    unfolding sel by (simp_all add: algebra_simps)
  have c11: "m11 M > m00 M \<longleftrightarrow> y * y > x * x" unfolding sel by auto
  have c20: "m22 M > m00 M \<longleftrightarrow> z * z > x * x" unfolding sel by auto
  have c21: "m22 M > m11 M \<longleftrightarrow> z * z > y * y" unfolding sel by auto
  have sq0: "p * p \<ge> 0" for p :: real by simp
  consider (W) "4 * w * w > 1"
    | (X) "\<not> 4 * w * w > 1" "\<not> y * y > x * x" "\<not> z * z > x * x"
    | (Y) "\<not> 4 * w * w > 1" "y * y > x * x" "\<not> z * z > y * y"
    | (Z) "\<not> 4 * w * w > 1" "y * y > x * x" "z * z > y * y"
    | (Z') "\<not> 4 * w * w > 1" "\<not> y * y > x * x" "z * z > x * x"
    by blast
  then have "\<exists>c. c \<noteq> 0 \<and> quaternion_from_matrix M = Inr (qscale (Quat x y z w) (sgn c))"
  proof cases
    case W
    then have w0: "w \<noteq> 0" by auto
    have "quaternion_from_matrix M = finish (Quat (4 * w * x) (4 * w * y) (4 * w * z) (4 * w * w)) (4 * w * w) M"
      unfolding qfm_unfold[of M] tr dw using W by (simp add: sel)
    then show ?thesis using finish_scaled[OF w0 sel(4)] w0 by auto
  next
    case X
    have x0: "x \<noteq> 0"
    proof
      assume "x = 0"
      with X sq0[of y] sq0[of z] have "y * y = 0" "z * z = 0" by auto
      with un \<open>x = 0\<close> have "w * w = 1" by simp
      with X(1) show False by simp
    qed
    have "quaternion_from_matrix M = finish (Quat (4 * x * x) (4 * x * y) (4 * x * z) (4 * x * w)) (4 * x * x) M"
      unfolding qfm_unfold[of M] tr tx dx c11 c20 using X by (simp add: sel)
    then show ?thesis using finish_scaled[OF x0 sel(4)] x0 by auto
  next
    case Y
    have y0: "y \<noteq> 0" using Y(2) sq0[of x] by auto
    have "quaternion_from_matrix M = finish (Quat (4 * y * x) (4 * y * y) (4 * y * z) (4 * y * w)) (4 * y * y) M"
      unfolding qfm_unfold[of M] tr ty dy c11 c21 using Y by (simp add: sel)
    then show ?thesis using finish_scaled[OF y0 sel(4)] y0 by auto
  next
    case Z
    have z0: "z \<noteq> 0" using Z(3) sq0[of y] by auto
    have "quaternion_from_matrix M = finish (Quat (4 * z * x) (4 * z * y) (4 * z * z) (4 * z * w)) (4 * z * z) M"
      unfolding qfm_unfold[of M] tr tz dz c11 c21 using Z by (simp add: sel)
    then show ?thesis using finish_scaled[OF z0 sel(4)] z0 by auto
  next
    case Z'
    have z0: "z \<noteq> 0" using Z'(3) sq0[of x] by auto
    have "quaternion_from_matrix M = finish (Quat (4 * z * x) (4 * z * y) (4 * z * z) (4 * z * w)) (4 * z * z) M"
      unfolding qfm_unfold[of M] tr tz dz c11 c20 using Z' by (simp add: sel)
    then show ?thesis using finish_scaled[OF z0 sel(4)] z0 by auto
  qed
  then show ?thesis by (simp add: M_def Quat)
qed

lemma qdot_mul:
  "qdot (qmul a b) (qmul a b) = qdot a a * qdot b b"
  by (simp add: qdot_def qmul_def Let_def algebra_simps)

lemma rot_of_rigid:
  assumes "qdot u u = 1"
  shows "rigid (set_col3 (rot_of u) t)"
proof (cases u)
  case (Quat x y z w)
  from assms have un: "x * x + y * y + z * z + w * w = 1" by (simp add: Quat qdot_def)
  have "(1 - 2 * (y * y + z * z)) * (1 - 2 * (y * y + z * z)) +
      2 * (x * y - z * w) * (2 * (x * y - z * w)) +
      2 * (x * z + y * w) * (2 * (x * z + y * w)) = 1"
   "2 * (x * y + z * w) * (2 * (x * y + z * w)) +
      (1 - 2 * (x * x + z * z)) * (1 - 2 * (x * x + z * z)) +
      2 * (y * z - x * w) * (2 * (y * z - x * w)) = 1"
   "2 * (x * z - y * w) * (2 * (x * z - y * w)) +
      2 * (y * z + x * w) * (2 * (y * z + x * w)) +
      (1 - 2 * (x * x + y * y)) * (1 - 2 * (x * x + y * y)) = 1"
   "(1 - 2 * (y * y + z * z)) * (2 * (x * y + z * w)) +
      2 * (x * y - z * w) * (1 - 2 * (x * x + z * z)) +
      2 * (x * z + y * w) * (2 * (y * z - x * w)) = 0"
   "(1 - 2 * (y * y + z * z)) * (2 * (x * z - y * w)) +
      2 * (x * y - z * w) * (2 * (y * z + x * w)) +
      2 * (x * z + y * w) * (1 - 2 * (x * x + y * y)) = 0"
   "2 * (x * y + z * w) * (2 * (x * z - y * w)) +
      (1 - 2 * (x * x + z * z)) * (2 * (y * z + x * w)) +
      2 * (y * z - x * w) * (1 - 2 * (x * x + y * y)) = 0"
    using un by algebra+
  then show ?thesis
    unfolding rigid_def orthonormal_block_def set_col3_def rot_of_def Let_def Quat quat.sel mat4.sel
    by simp
qed

lemma rot_mul:
  assumes "qdot a a = 1" "qdot b b = 1"
  shows "mat_mul (rot_of a) (rot_of b) = rot_of (qmul a b)"
proof (cases a)
  case A: (Quat x1 y1 z1 w1)
  show ?thesis
  proof (cases b)
    case B: (Quat x0 y0 z0 w0)
    from assms have un: "x1 * x1 + y1 * y1 + z1 * z1 + w1 * w1 = 1"
      "x0 * x0 + y0 * y0 + z0 * z0 + w0 * w0 = 1" by (simp_all add: A B qdot_def)
    have z: "0 * p = (0::real)" "p * 0 = (0::real)" "p + 0 = (p::real)" "1 * 1 = (1::real)" "0 + p = (p::real)" for p by simp_all
    show ?thesis
      unfolding mat_mul_def rot_of_def qmul_def Let_def A B quat.sel mat4.sel mat4.inject z
      apply (intro conjI refl)
      using un by algebra+
  qed
qed

lemma mat_mul_assoc: "mat_mul (mat_mul A B) C = mat_mul A (mat_mul B C)"
  by (simp add: mat_mul_def algebra_simps)

lemma mat_mul_eye_left: "mat_mul eye4 A = A"
  by (cases A) (simp add: mat_mul_def eye4_def)

lemma versor_of_unit:
  assumes "qdot u u = 1"
  shows "versor u = u"
  using assms EPS_le1 by (simp add: versor_def qscale_one)

lemma pose2np_Pose:
  "pose2np (PoseObj p) = set_col3 (rot_of (versor (orientation p))) (position p)"
  by (simp add: pose2np_def Let_def quaternion_matrix_versor set_col3_def set_block33_def
      rot_of_def eye4_def)

lemma pose2np_Transform:
  "pose2np (TransformObj t) = set_col3 (rot_of (versor (rotation t))) (translation t)"
  by (simp add: pose2np_def Let_def quaternion_matrix_versor)

lemma conj_unit: "qdot (qconj u) (qconj u) = qdot u u"
  by (simp add: qdot_def qconj_def)

lemma rigid_inverse_rot:
  "rigid_inverse (set_col3 (rot_of u) t) =
     set_col3 (rot_of (qconj u)) (XYZ (m03 (rigid_inverse (set_col3 (rot_of u) t)))
        (m13 (rigid_inverse (set_col3 (rot_of u) t))) (m23 (rigid_inverse (set_col3 (rot_of u) t))))"
  by (simp add: rigid_inverse_def set_col3_def rot_of_def qconj_def Let_def)

lemma mat_mul_set_col3:
  assumes "m30 A = 0" "m31 A = 0" "m32 A = 0" "m33 A = 1" "m30 B = 0" "m31 B = 0" "m32 B = 0" "m33 B = 1"
    "m03 A = 0" "m13 A = 0" "m23 A = 0" "m03 B = 0" "m13 B = 0" "m23 B = 0"
  shows "mat_mul (set_col3 A s) (set_col3 B t) =
     set_col3 (mat_mul A B) (XYZ (m03 (mat_mul (set_col3 A s) (set_col3 B t)))
        (m13 (mat_mul (set_col3 A s) (set_col3 B t))) (m23 (mat_mul (set_col3 A s) (set_col3 B t))))"
  using assms by (simp add: mat_mul_def set_col3_def)

lemma rot_of_shape:
  "m30 (rot_of u) = 0" "m31 (rot_of u) = 0" "m32 (rot_of u) = 0" "m33 (rot_of u) = 1"
  "m03 (rot_of u) = 0" "m13 (rot_of u) = 0" "m23 (rot_of u) = 0"
  by (simp_all add: rot_of_def Let_def)

lemma between_units:
  assumes ua: "qdot a a = 1" and ub: "qdot b b = 1"
  shows "\<exists>c tg k. qdot c c = 1 \<and> k \<noteq> 0 \<and>
     linalg_inv (set_col3 (rot_of a) s) = Inr (rigid_inverse (set_col3 (rot_of a) s)) \<and>
     mat_mul (rigid_inverse (set_col3 (rot_of a) s)) (set_col3 (rot_of b) t) = set_col3 (rot_of c) tg \<and>
     np2trf (set_col3 (rot_of c) tg) Transform0 = Inr \<lparr>translation = tg, rotation = qscale c (sgn k)\<rparr>"
proof -
  define c where "c = qmul (qconj a) b"
  have uc: "qdot c c = 1" by (simp add: c_def qdot_mul conj_unit ua ub)
  have inv: "linalg_inv (set_col3 (rot_of a) s) = Inr (rigid_inverse (set_col3 (rot_of a) s))"
    by (rule linalg_inv_rigid[OF rot_of_rigid[OF ua]])
  obtain s' where ri: "rigid_inverse (set_col3 (rot_of a) s) = set_col3 (rot_of (qconj a)) s'"
    using rigid_inverse_rot by blast
  obtain tg where g: "mat_mul (rigid_inverse (set_col3 (rot_of a) s)) (set_col3 (rot_of b) t) = set_col3 (rot_of c) tg"
    unfolding ri c_def rot_mul[OF conj_unit[of a, unfolded ua] ub, symmetric]
    using mat_mul_set_col3[OF rot_of_shape(1-4) rot_of_shape(1-4) rot_of_shape(5-7) rot_of_shape(5-7)]
    by blast
  obtain k where k: "k \<noteq> 0" "quaternion_from_matrix (set_col3 (rot_of c) tg) = Inr (qscale c (sgn k))"
    using qfm_rot[OF uc] by blast
  have "np2trf (set_col3 (rot_of c) tg) Transform0 = Inr \<lparr>translation = tg, rotation = qscale c (sgn k)\<rparr>"
    unfolding np2trf_def Let_def k
    by (cases tg) (simp add: Transform0_def set_col3_def qscale_def)
  with uc k(1) inv g show ?thesis by blast
qed

section \<open>The program\<close>

lemma qmul_hamilton: "qmul p q = hamilton p q"
  by (simp add: qmul_def hamilton_def vec_part_def vcross_def vdot_def Let_def algebra_simps)

lemma hamilton_assoc: "hamilton (hamilton p q) r = hamilton p (hamilton q r)"
  by (simp add: hamilton_def vec_part_def vcross_def vdot_def Let_def algebra_simps)

lemma pose2np_other:
  assumes "\<not> isinstance_Pose p" "\<not> isinstance_Transform p"
  shows "pose2np p = eye4"
  using assms by (cases p) (simp_all add: pose2np_def isinstance_Pose_def isinstance_Transform_def)

lemma versor_identity: "versor (Quat 0 0 0 1) = Quat 0 0 0 1"
  using EPS_le1 by (simp add: versor_def qdot_def qscale_def)

lemma rot_of_identity: "rot_of (Quat 0 0 0 1) = eye4"
  by (simp add: rot_of_def eye4_def)

lemma pose2np_identity_pose:
  "pose2np (PoseObj \<lparr>position = XYZ 0 0 0, orientation = Quat 0 0 0 1\<rparr>) = eye4"
  by (simp add: pose2np_Pose versor_identity rot_of_identity) (simp add: set_col3_def eye4_def)

lemma pose2np_zero_quaternion:
  assumes "qdot q q = 0"
  shows "quaternion_matrix q = eye4"
  using assms EPS_pos by (simp add: quaternion_matrix_def)

lemma qscale_qscale: "qscale (qscale q a) b = qscale q (a * b)"
  by (simp add: qscale_def algebra_simps)

lemma sgn_cases: "c \<noteq> 0 \<Longrightarrow> sgn c = 1 \<or> sgn c = - 1" for c :: real
  by (simp add: sgn_real_def)

lemma quat_collapse: "Quat (qx r) (qy r) (qz r) (qw r) = r"
  by (cases r) simp

lemma sqrt_576_169: "sqrt (576 / 169) = 24 / 13"
proof -
  have "sqrt (576 / 169) = sqrt ((24 / 13) * (24 / 13))" by simp
  also have "\<dots> = \<bar>24 / 13\<bar>" by (rule real_sqrt_abs2)
  finally show ?thesis by simp
qed

lemma index_None_iff: "index xs v = None \<longleftrightarrow> v \<notin> set xs"
  by (induction xs) auto

lemma rigid_eye4: "rigid eye4"
  by (simp add: rigid_def orthonormal_block_def eye4_def)

lemma linalg_inv_eye4: "linalg_inv eye4 = Inr eye4"
  unfolding linalg_inv_rigid[OF rigid_eye4] by (simp add: rigid_inverse_def eye4_def)

lemma set_col3_read: "XYZ (m03 (set_col3 A w)) (m13 (set_col3 A w)) (m23 (set_col3 A w)) = w"
  by (cases w) (simp add: set_col3_def)

lemma qfm_translation_only:
  "quaternion_from_matrix (set_col3 eye4 v) = Inr (Quat 0 0 0 1)"
  unfolding qfm_unfold by (simp add: set_col3_def eye4_def finish_def qscale_def)

lemma between_reference_identity:
  assumes "\<not> isinstance_Pose b" "\<not> isinstance_Transform b"
  shows "transform_between_poses b (PoseObj \<lparr>position = v, orientation = Quat 0 0 0 1\<rparr>) =
    Inr \<lparr>translation = v, rotation = Quat 0 0 0 1\<rparr>"
  unfolding transform_between_poses_def Let_def pose2np_other[OF assms] linalg_inv_eye4
    sum.case mat_mul_eye_left pose2np_Pose np2trf_def pose.select_convs versor_identity
    rot_of_identity qfm_translation_only set_col3_read
  by (simp add: Transform0_def)

lemma callback_keeps_node: "fst (callback data self) = self"
  by (simp add: callback_def split: option.splits)

lemma main_body_keeps_node: "fst (main_body self) = self"
  by (simp add: main_body_def Let_def)

lemma main_body_sends_nothing: "fst (snd (main_body self)) = []"
  by (simp add: main_body_def Let_def)

lemma step_keeps_node: "the_node (step w ev) = the_node w"
proof (cases ev)
  case (Message data)
  then show ?thesis by (simp add: step_def callback_keeps_node)
next
  case Pass
  obtain self out exc where m: "main_body (the_node w) = (self, out, exc)"
    by (cases "main_body (the_node w)") auto
  from main_body_keeps_node[of "the_node w"] m show ?thesis by (simp add: step_def Pass)
qed

lemma step_sends_nothing: "sent (step w ev) = sent w"
proof (cases ev)
  case (Message data)
  then show ?thesis by (simp add: step_def)
next
  case Pass
  obtain self out exc where m: "main_body (the_node w) = (self, out, exc)"
    by (cases "main_body (the_node w)") auto
  from main_body_sends_nothing[of "the_node w"] m show ?thesis by (simp add: step_def Pass)
qed

lemma run_keeps_node: "the_node (run w evs) = the_node w"
  unfolding run_def by (induction evs arbitrary: w) (simp_all add: step_keeps_node)

lemma run_sends_nothing: "sent (run w evs) = sent w"
  unfolding run_def by (induction evs arbitrary: w) (simp_all add: step_sends_nothing)

text \<open>
  On sequences of floats, four for the rotation and three for the vector,
  \<^verbatim>\<open>transform_vector\<close> returns the sandwich of the specification, whatever the other slot
  holds.
\<close>

lemma transform_vector_on_sequences:
  "transform_vector \<lparr>translation_slot = d, rotation_slot = FloatSeq [x, y, z, w]\<rparr>
      (FloatSeq [a, b, c]) False = Inr (coords (sandwich (Quat x y z w) (XYZ a b c)))"
  "transform_vector \<lparr>translation_slot = d, rotation_slot = FloatSeq [x, y, z, w]\<rparr>
      (FloatSeq [a, b, c]) True = Inr (coords (sandwich_inverse (Quat x y z w) (XYZ a b c)))"
proof -
  have c: "qconj q = q_star q" for q by (simp add: qconj_def q_star_def)
  have p: "Quat a b c 0 = pure_quat (XYZ a b c)" by (simp add: pure_quat_def)
  have f: "first3 q = coords (vec_part q)" for q by (simp add: first3_def vec_part_def coords_def)
  have u: "unpack4 (array4 q) = Inr q" for q by (cases q) (simp add: unpack4_def array4_def)
  have m: "quaternion_multiply (array4 q) (array4 r) = Inr (hamilton q r)" for q r
    by (simp add: quaternion_multiply_def u qmul_hamilton)
  have l: "quaternion_multiply (FloatSeq [x, y, z, w]) (FloatSeq [a, b, c, 0])
      = Inr (hamilton (Quat x y z w) (pure_quat (XYZ a b c)))"
    by (simp add: quaternion_multiply_def unpack4_def qmul_hamilton p)
  have r: "quaternion_multiply (FloatSeq [a, b, c, 0]) (FloatSeq [x, y, z, w])
      = Inr (hamilton (pure_quat (XYZ a b c)) (Quat x y z w))"
    by (simp add: quaternion_multiply_def unpack4_def qmul_hamilton p)
  have k: "quaternion_conjugate (FloatSeq [x, y, z, w]) = Inr (q_star (Quat x y z w))"
    by (simp add: quaternion_conjugate_def index4_def c)
  show "transform_vector \<lparr>translation_slot = d, rotation_slot = FloatSeq [x, y, z, w]\<rparr>
      (FloatSeq [a, b, c]) False = Inr (coords (sandwich (Quat x y z w) (XYZ a b c)))"
    by (simp add: transform_vector_def list_of_def l k m f sandwich_def hamilton_assoc)
  show "transform_vector \<lparr>translation_slot = d, rotation_slot = FloatSeq [x, y, z, w]\<rparr>
      (FloatSeq [a, b, c]) True = Inr (coords (sandwich_inverse (Quat x y z w) (XYZ a b c)))"
    by (simp add: transform_vector_def list_of_def r k m f sandwich_inverse_def)
qed

lemma matrix_of_doubled_identity:
  "pose2np (PoseObj \<lparr>position = XYZ 1 2 3, orientation = Quat 0 0 0 2\<rparr>)
     = Mat4 1 0 0 1  0 1 0 2  0 0 1 3  0 0 0 1"
proof -
  have e: "\<not> (4::real) < EPS" using EPS_le1 by simp
  have v1: "versor (Quat 0 0 0 2) = Quat 0 0 0 1"
    using e by (simp add: versor_def qdot_def qscale_def)
  show ?thesis
    unfolding pose2np_Pose pose.select_convs v1 by (simp add: rot_of_def set_col3_def Let_def)
qed

lemma matrix_of_negative_scalar:
  "pose2np (PoseObj \<lparr>position = XYZ 1 2 3, orientation = Quat (12 / 13) 0 0 (- 5 / 13)\<rparr>)
     = Mat4 1 0 0 1  0 (- 119 / 169) (120 / 169) 2  0 (- 120 / 169) (- 119 / 169) 3  0 0 0 1"
proof -
  have "qdot (Quat (12 / 13) 0 0 (- 5 / 13)) (Quat (12 / 13) 0 0 (- 5 / 13)) = 1"
    by (simp add: qdot_def)
  then have v2: "versor (Quat (12 / 13) 0 0 (- 5 / 13)) = Quat (12 / 13) 0 0 (- 5 / 13)"
    by (rule versor_of_unit)
  show ?thesis
    unfolding pose2np_Pose pose.select_convs v2 by (simp add: rot_of_def set_col3_def Let_def)
qed

lemma quaternion_of_doubled_identity:
  "quaternion_from_matrix (Mat4 1 0 0 1  0 1 0 2  0 0 1 3  0 0 0 1) = Inr (Quat 0 0 0 1)"
  unfolding qfm_unfold mat4.sel by (simp add: finish_def qscale_def)

lemma quaternion_of_negative_scalar:
  "quaternion_from_matrix
     (Mat4 1 0 0 1  0 (- 119 / 169) (120 / 169) 2  0 (- 120 / 169) (- 119 / 169) 3  0 0 0 1)
     = Inr (Quat (12 / 13) 0 0 (- 5 / 13))"
  unfolding qfm_unfold mat4.sel by (simp add: finish_def qscale_def sqrt_576_169)

section \<open>The claims\<close>

text \<open>
  C1. For every pair of poses \<open>pb\<close>, \<open>pf\<close>, \<^verbatim>\<open>transform_between_poses(pb, pf)\<close> returns a
  transform, and the matrix of \<open>pb\<close> times the matrix of that transform is the matrix of
  \<open>pf\<close>. Nothing is asked of the quaternions: one below the threshold of
  \<^verbatim>\<open>quaternion_matrix\<close> is read as the identity rotation on both sides of the equation,
  so the poses with quaternions of nonzero norm are covered.
\<close>

theorem compose_transform_between:
  "\<exists>t. transform_between_poses (PoseObj pb) (PoseObj pf) = Inr t \<and>
     mat_mul (pose2np (PoseObj pb)) (pose2np (TransformObj t)) = pose2np (PoseObj pf)"
proof -
  define a where "a = versor (orientation pb)"
  define b where "b = versor (orientation pf)"
  have ua: "qdot a a = 1" and ub: "qdot b b = 1" by (simp_all add: a_def b_def versor_unit)
  obtain c tg k where uc: "qdot c c = 1" and k: "k \<noteq> 0"
    and inv: "linalg_inv (set_col3 (rot_of a) (position pb)) = Inr (rigid_inverse (set_col3 (rot_of a) (position pb)))"
    and g: "mat_mul (rigid_inverse (set_col3 (rot_of a) (position pb))) (set_col3 (rot_of b) (position pf)) = set_col3 (rot_of c) tg"
    and tr: "np2trf (set_col3 (rot_of c) tg) Transform0 = Inr \<lparr>translation = tg, rotation = qscale c (sgn k)\<rparr>"
    using between_units[OF ua ub] by blast
  let ?t = "\<lparr>translation = tg, rotation = qscale c (sgn k)\<rparr>"
  have t: "transform_between_poses (PoseObj pb) (PoseObj pf) = Inr ?t"
    unfolding transform_between_poses_def Let_def pose2np_Pose a_def[symmetric] b_def[symmetric] inv
    by (simp add: g tr)
  have "versor (qscale c (sgn k)) = qscale c (sgn k)"
    by (rule versor_of_unit) (simp add: unit_sgn[OF k] uc)
  then have rt: "pose2np (TransformObj ?t) = set_col3 (rot_of c) tg"
    by (simp add: pose2np_Transform rot_of_sgn[OF k])
  have "mat_mul (pose2np (PoseObj pb)) (pose2np (TransformObj ?t)) =
      mat_mul (mat_mul (set_col3 (rot_of a) (position pb)) (rigid_inverse (set_col3 (rot_of a) (position pb))))
        (set_col3 (rot_of b) (position pf))"
    unfolding rt g[symmetric] pose2np_Pose a_def[symmetric] by (simp add: mat_mul_assoc)
  also have "\<dots> = pose2np (PoseObj pf)"
    unfolding mat_mul_rigid_inverse[OF rot_of_rigid[OF ua]] mat_mul_eye_left pose2np_Pose b_def
    by (rule refl)
  finally show ?thesis using t by blast
qed

text \<open>
  C2. The claim: with the reference latched at position \<open>(5, 0, 0)\<close> and the next sample at
  \<open>(5, 1, 0)\<close>, both upright, with world velocity \<open>(0, 1, 0)\<close>, the record sent has
  the translation \<open>(0, 1, 0)\<close> and the body velocity \<open>(0, 1, 0)\<close>. The program sends no
  record. The constructor raises; on the object it leaves, the two messages of the
  scenario and a pass of the loop after each send nothing and store nothing, each
  callback ending in \<^verbatim>\<open>NameError\<close>; a pass on a node that is given the second sample and
  a reference by hand raises \<^verbatim>\<open>NameError\<close> and sends nothing. And the call that line 136
  spells, \<^verbatim>\<open>transform_between_poses\<close> of a stamped reference at \<open>(5, 0, 0)\<close> and the pose
  at \<open>(5, 1, 0)\<close>, returns the translation \<open>(5, 1, 0)\<close>, not \<open>(0, 1, 0)\<close>: \<^verbatim>\<open>pose2np\<close>
  reads the stamped object as the identity.
\<close>

theorem scenario_B_emits_nothing:
  "OdometryPublisher_init = (init_node, Some NameError) \<and>
   run init_world
      [Message \<lparr>ms_name = [''ground_plane'', ''puzzlebot''],
                ms_pose = [\<lparr>position = XYZ 0 0 0, orientation = Quat 0 0 0 1\<rparr>,
                           \<lparr>position = XYZ 5 0 0, orientation = Quat 0 0 0 1\<rparr>],
                ms_twist = [\<lparr>twist_linear = XYZ 0 0 0, twist_angular = XYZ 0 0 0\<rparr>,
                            \<lparr>twist_linear = XYZ 0 0 0, twist_angular = XYZ 0 0 0\<rparr>]\<rparr>,
       Pass,
       Message \<lparr>ms_name = [''ground_plane'', ''puzzlebot''],
                ms_pose = [\<lparr>position = XYZ 0 0 0, orientation = Quat 0 0 0 1\<rparr>,
                           \<lparr>position = XYZ 5 1 0, orientation = Quat 0 0 0 1\<rparr>],
                ms_twist = [\<lparr>twist_linear = XYZ 0 0 0, twist_angular = XYZ 0 0 0\<rparr>,
                            \<lparr>twist_linear = XYZ 0 1 0, twist_angular = XYZ 0 0 0\<rparr>]\<rparr>,
       Pass] = init_world \<and>
   callback \<lparr>ms_name = [''ground_plane'', ''puzzlebot''],
                ms_pose = [\<lparr>position = XYZ 0 0 0, orientation = Quat 0 0 0 1\<rparr>,
                           \<lparr>position = XYZ 5 1 0, orientation = Quat 0 0 0 1\<rparr>],
                ms_twist = [\<lparr>twist_linear = XYZ 0 0 0, twist_angular = XYZ 0 0 0\<rparr>,
                            \<lparr>twist_linear = XYZ 0 1 0, twist_angular = XYZ 0 0 0\<rparr>]\<rparr> init_node
     = (init_node, Some NameError) \<and>
   main_body
     \<lparr>model_state = Some \<lparr>position = XYZ 5 1 0, orientation = Quat 0 0 0 1\<rparr>,
      model_twist = Some \<lparr>twist_linear = XYZ 0 1 0, twist_angular = XYZ 0 0 0\<rparr>,
      initial_state = Some (PoseStampedObj \<lparr>header = \<lparr>stamp = 10, frame_id = ''world''\<rparr>, child_frame_id = ''odom_true'',
        transform = \<lparr>translation = XYZ 5 0 0, rotation = Quat 0 0 0 1\<rparr>\<rparr>)\<rparr> =
     (\<lparr>model_state = Some \<lparr>position = XYZ 5 1 0, orientation = Quat 0 0 0 1\<rparr>,
       model_twist = Some \<lparr>twist_linear = XYZ 0 1 0, twist_angular = XYZ 0 0 0\<rparr>,
       initial_state = Some (PoseStampedObj \<lparr>header = \<lparr>stamp = 10, frame_id = ''world''\<rparr>, child_frame_id = ''odom_true'',
        transform = \<lparr>translation = XYZ 5 0 0, rotation = Quat 0 0 0 1\<rparr>\<rparr>)\<rparr>,
      [], Some NameError) \<and>
   transform_between_poses
     (PoseStampedObj \<lparr>header = \<lparr>stamp = 10, frame_id = ''world''\<rparr>, child_frame_id = ''odom_true'',
        transform = \<lparr>translation = XYZ 5 0 0, rotation = Quat 0 0 0 1\<rparr>\<rparr>)
     (PoseObj \<lparr>position = XYZ 5 1 0, orientation = Quat 0 0 0 1\<rparr>)
     = Inr \<lparr>translation = XYZ 5 1 0, rotation = Quat 0 0 0 1\<rparr>"
proof -
  have o: "\<not> isinstance_Pose (PoseStampedObj s)" "\<not> isinstance_Transform (PoseStampedObj s)" for s
    by (simp_all add: isinstance_Pose_def isinstance_Transform_def)
  show ?thesis
    by (simp add: OdometryPublisher_init_def run_def step_def init_world_def init_node_def
        callback_def main_body_def between_reference_identity[OF o])
qed

text \<open>
  C3, as the code has it. For a pose or a transform whose quaternion has norm zero,
  \<^verbatim>\<open>pose2np\<close> raises nothing: it returns the matrix with the identity rotation and the
  translation of its argument, whose entries are \<open>0\<close>, \<open>1\<close> and the three coordinates.
\<close>

theorem pose2np_zero_norm:
  assumes "qdot (orientation ps) (orientation ps) = 0" "qdot (rotation tr) (rotation tr) = 0"
  shows "pose2np (PoseObj ps) = set_col3 eye4 (position ps) \<and>
         pose2np (TransformObj tr) = set_col3 eye4 (translation tr)"
  using assms
  by (simp add: pose2np_def Let_def pose2np_zero_quaternion set_block33_def set_col3_def eye4_def)

theorem pose2np_zero_norm_witness:
  "qdot (Quat 0 0 0 0) (Quat 0 0 0 0) = 0 \<and>
   pose2np (PoseObj \<lparr>position = XYZ 4 5 6, orientation = Quat 0 0 0 0\<rparr>)
     = Mat4 1 0 0 4  0 1 0 5  0 0 1 6  0 0 0 1 \<and>
   pose2np (TransformObj \<lparr>translation = XYZ 7 8 9, rotation = Quat 0 0 0 0\<rparr>)
     = Mat4 1 0 0 7  0 1 0 8  0 0 1 9  0 0 0 1"
proof -
  have z: "qdot (Quat 0 0 0 0) (Quat 0 0 0 0) = 0" by (simp add: qdot_def)
  show ?thesis
    using z pose2np_zero_norm[of "\<lparr>position = XYZ 4 5 6, orientation = Quat 0 0 0 0\<rparr>"
        "\<lparr>translation = XYZ 7 8 9, rotation = Quat 0 0 0 0\<rparr>"]
    by (simp add: set_col3_def eye4_def)
qed

text \<open>
  C3 as stated, that the conversion of a zero quaternion fails, is false at the pose at
  \<open>(1, 2, 3)\<close> with the quaternion \<open>(0, 0, 0, 0)\<close>: the conversion returns a matrix.
\<close>

theorem pose2np_zero_norm_counterexample:
  "pose2np (PoseObj \<lparr>position = XYZ 1 2 3, orientation = Quat 0 0 0 0\<rparr>)
     = Mat4 1 0 0 1  0 1 0 2  0 0 1 3  0 0 0 1"
  using EPS_pos
  by (simp add: pose2np_def Let_def quaternion_matrix_def qdot_def set_block33_def set_col3_def eye4_def)

text \<open>
  C5. The claim: \<^verbatim>\<open>transform_vector\<close> returns the quaternion sandwich for every transform,
  vector and flag. For the arguments of its one call (line 153), a \<^verbatim>\<open>Transform\<close> message
  with the orientation \<open>(0, 0, 0, 1)\<close> stored as its rotation and a \<^verbatim>\<open>Vector3\<close> message
  \<open>(0, 1, 0)\<close>, the function raises \<^verbatim>\<open>TypeError\<close> for either flag; it does so too when
  the vector is the list \<open>[0, 1, 0]\<close>, the rotation being a message.
\<close>

theorem transform_vector_raises_on_messages:
  "transform_vector (message \<lparr>translation = XYZ 0 0 0, rotation = Quat 0 0 0 1\<rparr>)
      (Vector3Msg (XYZ 0 1 0)) True = Inl TypeError \<and>
   transform_vector (message \<lparr>translation = XYZ 0 0 0, rotation = Quat 0 0 0 1\<rparr>)
      (Vector3Msg (XYZ 0 1 0)) False = Inl TypeError \<and>
   transform_vector (message \<lparr>translation = XYZ 0 0 0, rotation = Quat 0 0 0 1\<rparr>)
      (FloatSeq [0, 1, 0]) True = Inl TypeError \<and>
   transform_vector (message \<lparr>translation = XYZ 0 0 0, rotation = Quat 0 0 0 1\<rparr>)
      (FloatSeq [0, 1, 0]) False = Inl TypeError"
  by (simp add: transform_vector_def message_def list_of_def quaternion_conjugate_def
      quaternion_multiply_def index4_def unpack4_def)

text \<open>
  C6. The claim: the reference is written exactly once, on the first sample, and
  announced exactly once. In the program it is written and announced zero times. The
  constructor raises \<^verbatim>\<open>NameError\<close> and the loop is not started; and were it started on
  the object the constructor leaves, then however messages and passes follow one another
  the node stays as it was, no reference latched, no model state stored, and nothing is
  sent; a pass on a node that is given a model state by hand raises \<^verbatim>\<open>NameError\<close> at
  line 121, before the assignment of line 127 and the announcement of line 128.
\<close>

theorem reference_never_latched:
  "OdometryPublisher_init = (init_node, Some NameError) \<and>
   the_node (run init_world evs) = init_node \<and>
   initial_state (the_node (run init_world evs)) = None \<and>
   sent (run init_world evs) = [] \<and>
   main_body \<lparr>model_state = Some ms, model_twist = tw, initial_state = None\<rparr> =
     (\<lparr>model_state = Some ms, model_twist = tw, initial_state = None\<rparr>, [], Some NameError)"
  by (simp add: OdometryPublisher_init_def run_keeps_node run_sends_nothing init_world_def
      init_node_def main_body_def)

text \<open>
  C7, as the code has it. For every pose whose quaternion \<open>q\<close> has a squared norm of at
  least \<^verbatim>\<open>_EPS\<close>, \<^verbatim>\<open>np2pose\<close> of \<^verbatim>\<open>pose2np\<close> of the pose returns, without an error, a pose
  with the same position and with the orientation \<open>q\<close> over its norm, or the negative
  of that: for a unit quaternion, the quaternion itself up to sign.
\<close>

theorem roundtrip_pose:
  assumes "EPS \<le> qdot (orientation p) (orientation p)"
  shows "\<exists>s. (s = 1 \<or> s = - 1) \<and>
    np2pose (pose2np (PoseObj p)) p0 =
      Inr \<lparr>position = position p,
           orientation = qscale (orientation p) (s / sqrt (qdot (orientation p) (orientation p)))\<rparr>"
proof -
  define q where "q = orientation p"
  have v: "versor q = qscale q (1 / sqrt (qdot q q))"
    using assms by (simp add: versor_def q_def)
  obtain c where c: "c \<noteq> 0"
    and f: "quaternion_from_matrix (set_col3 (rot_of (versor q)) (position p)) = Inr (qscale (versor q) (sgn c))"
    using qfm_rot[OF versor_unit] by blast
  have o: "qscale (versor q) (sgn c) = qscale q (sgn c / sqrt (qdot q q))"
    unfolding v qscale_qscale by simp
  have t: "XYZ (m03 (set_col3 A w)) (m13 (set_col3 A w)) (m23 (set_col3 A w)) = w" for A w
    by (cases w) (simp add: set_col3_def)
  have "np2pose (pose2np (PoseObj p)) p0 =
      Inr \<lparr>position = position p, orientation = qscale q (sgn c / sqrt (qdot q q))\<rparr>"
    unfolding np2pose_def Let_def pose2np_Pose q_def[symmetric] f t quat_collapse o
    by simp
  then show ?thesis using sgn_cases[OF c] unfolding q_def by blast
qed

theorem roundtrip_pose_witness:
  "EPS \<le> qdot (Quat 0 0 0 2) (Quat 0 0 0 2) \<and>
   (\<exists>s. (s = 1 \<or> s = - 1) \<and>
      np2pose (pose2np (PoseObj \<lparr>position = XYZ 1 2 3, orientation = Quat 0 0 0 2\<rparr>)) Pose0 =
        Inr \<lparr>position = XYZ 1 2 3, orientation = Quat 0 0 0 s\<rparr>)"
proof -
  have h: "EPS \<le> qdot (orientation \<lparr>position = XYZ 1 2 3, orientation = Quat 0 0 0 2\<rparr>)
        (orientation \<lparr>position = XYZ 1 2 3, orientation = Quat 0 0 0 2\<rparr>)"
    using EPS_le1 by (simp add: qdot_def)
  show ?thesis
    using h roundtrip_pose[OF h, of Pose0]
    by (simp add: qdot_def qscale_def)
qed

text \<open>
  C7 as stated fails twice. The pose with the quaternion \<open>(0, 0, 0, 2)\<close>, of norm two,
  comes back with \<open>(0, 0, 0, 1)\<close>, which is neither that quaternion nor its negative.
  The pose with the unit quaternion \<open>(12/13, 0, 0, -5/13)\<close> comes back with that
  quaternion, whose scalar component is negative.
\<close>

theorem roundtrip_pose_counterexample:
  "np2pose (pose2np (PoseObj \<lparr>position = XYZ 1 2 3, orientation = Quat 0 0 0 2\<rparr>)) Pose0
     = Inr \<lparr>position = XYZ 1 2 3, orientation = Quat 0 0 0 1\<rparr> \<and>
   np2pose (pose2np (PoseObj \<lparr>position = XYZ 1 2 3, orientation = Quat (12 / 13) 0 0 (- 5 / 13)\<rparr>)) Pose0
     = Inr \<lparr>position = XYZ 1 2 3, orientation = Quat (12 / 13) 0 0 (- 5 / 13)\<rparr>"
  unfolding matrix_of_doubled_identity matrix_of_negative_scalar np2pose_def Let_def
    quaternion_of_doubled_identity quaternion_of_negative_scalar
  by (simp add: Pose0_def)

text \<open>
  C8. For every message whose list of names does not hold \<^verbatim>\<open>'puzzlebot'\<close>, the lookup in
  \<^verbatim>\<open>callback\<close> raises (the \<^verbatim>\<open>ValueError\<close> of \<^verbatim>\<open>list.index\<close> is the error of a body that is
  not found) before anything is stored: the node is as it was, and so is everything else,
  the model state, the latched reference, what has been sent, and the loop, which goes on.
\<close>

theorem body_absent_skipped:
  assumes "''puzzlebot'' \<notin> set (ms_name data)"
  shows "callback data self = (self, Some ValueError) \<and> step w (Message data) = w"
proof -
  have "index (ms_name data) ''puzzlebot'' = None" using assms by (simp add: index_None_iff)
  then have c: "callback data self = (self, Some ValueError)" for self
    by (simp add: callback_def)
  then show ?thesis by (simp add: step_def)
qed

theorem body_absent_skipped_witness:
  "''puzzlebot'' \<notin> set [''ground_plane'', ''unit_box''] \<and>
   callback \<lparr>ms_name = [''ground_plane'', ''unit_box''],
             ms_pose = [\<lparr>position = XYZ 0 0 0, orientation = Quat 0 0 0 1\<rparr>,
                        \<lparr>position = XYZ 1 1 0, orientation = Quat 0 0 0 1\<rparr>],
             ms_twist = [\<lparr>twist_linear = XYZ 0 0 0, twist_angular = XYZ 0 0 0\<rparr>,
                         \<lparr>twist_linear = XYZ 0 0 0, twist_angular = XYZ 0 0 0\<rparr>]\<rparr> init_node
     = (init_node, Some ValueError) \<and>
   step init_world (Message \<lparr>ms_name = [''ground_plane'', ''unit_box''],
             ms_pose = [\<lparr>position = XYZ 0 0 0, orientation = Quat 0 0 0 1\<rparr>,
                        \<lparr>position = XYZ 1 1 0, orientation = Quat 0 0 0 1\<rparr>],
             ms_twist = [\<lparr>twist_linear = XYZ 0 0 0, twist_angular = XYZ 0 0 0\<rparr>,
                         \<lparr>twist_linear = XYZ 0 0 0, twist_angular = XYZ 0 0 0\<rparr>]\<rparr>) = init_world"
proof -
  have h: "''puzzlebot'' \<notin> set (ms_name \<lparr>ms_name = [''ground_plane'', ''unit_box''],
             ms_pose = [\<lparr>position = XYZ 0 0 0, orientation = Quat 0 0 0 1\<rparr>,
                        \<lparr>position = XYZ 1 1 0, orientation = Quat 0 0 0 1\<rparr>],
             ms_twist = [\<lparr>twist_linear = XYZ 0 0 0, twist_angular = XYZ 0 0 0\<rparr>,
                         \<lparr>twist_linear = XYZ 0 0 0, twist_angular = XYZ 0 0 0\<rparr>]\<rparr>)"
    by simp
  show ?thesis
    using h body_absent_skipped[OF h, of init_node init_world] by simp
qed

text \<open>
  C9. For every rigid 4x4 homogeneous transform \<open>g\<close> (orthonormal rotation block, bottom
  row \<open>[0, 0, 0, 1]\<close>) the general matrix inverse that \<^verbatim>\<open>transform_between_poses\<close> calls
  returns, without an error, the analytic rigid inverse \<open>[[R\<^sup>T, - R\<^sup>T t], [0, 1]]\<close>, and
  the product of \<open>g\<close> with that inverse is the 4x4 identity.
\<close>

theorem general_inverse_is_rigid_inverse:
  assumes "rigid g"
  shows "linalg_inv g = Inr (rigid_inverse g) \<and> mat_mul g (rigid_inverse g) = eye4"
  using assms linalg_inv_rigid mat_mul_rigid_inverse by blast

theorem general_inverse_is_rigid_inverse_witness:
  "rigid (Mat4 0 (- 1) 0 1  1 0 0 2  0 0 1 3  0 0 0 1) \<and>
   linalg_inv (Mat4 0 (- 1) 0 1  1 0 0 2  0 0 1 3  0 0 0 1)
     = Inr (Mat4 0 1 0 (- 2)  (- 1) 0 0 1  0 0 1 (- 3)  0 0 0 1) \<and>
   mat_mul (Mat4 0 (- 1) 0 1  1 0 0 2  0 0 1 3  0 0 0 1)
     (Mat4 0 1 0 (- 2)  (- 1) 0 0 1  0 0 1 (- 3)  0 0 0 1) = eye4"
proof -
  have r: "rigid (Mat4 0 (- 1) 0 1  1 0 0 2  0 0 1 3  0 0 0 1)"
    by (simp add: rigid_def orthonormal_block_def)
  show ?thesis
    using r general_inverse_is_rigid_inverse[OF r] by (simp add: rigid_inverse_def)
qed

text \<open>
  C10. For every object that is neither a \<^verbatim>\<open>Pose\<close> nor a \<^verbatim>\<open>Transform\<close>, the \<^verbatim>\<open>PoseStamped\<close>
  that the loop means to latch among them, \<^verbatim>\<open>pose2np\<close> returns the 4x4 identity, and
  \<^verbatim>\<open>transform_between_poses\<close> with such a base returns what it returns for the pose at
  the origin with the identity orientation.
\<close>

theorem pose2np_neither_is_identity:
  assumes "\<not> isinstance_Pose p" "\<not> isinstance_Transform p"
  shows "pose2np p = eye4 \<and>
    transform_between_poses p pf =
      transform_between_poses (PoseObj \<lparr>position = XYZ 0 0 0, orientation = Quat 0 0 0 1\<rparr>) pf"
  using pose2np_other[OF assms]
  by (simp add: transform_between_poses_def pose2np_identity_pose)

theorem pose2np_neither_is_identity_witness:
  "\<not> isinstance_Pose (PoseStampedObj \<lparr>header = \<lparr>stamp = 10, frame_id = ''world''\<rparr>, child_frame_id = ''odom_true'',
        transform = \<lparr>translation = XYZ 5 0 0, rotation = Quat 0 0 0 1\<rparr>\<rparr>) \<and>
   \<not> isinstance_Transform (PoseStampedObj \<lparr>header = \<lparr>stamp = 10, frame_id = ''world''\<rparr>, child_frame_id = ''odom_true'',
        transform = \<lparr>translation = XYZ 5 0 0, rotation = Quat 0 0 0 1\<rparr>\<rparr>) \<and>
   pose2np (PoseStampedObj \<lparr>header = \<lparr>stamp = 10, frame_id = ''world''\<rparr>, child_frame_id = ''odom_true'',
        transform = \<lparr>translation = XYZ 5 0 0, rotation = Quat 0 0 0 1\<rparr>\<rparr>) = eye4 \<and>
   transform_between_poses (PoseStampedObj \<lparr>header = \<lparr>stamp = 10, frame_id = ''world''\<rparr>, child_frame_id = ''odom_true'',
        transform = \<lparr>translation = XYZ 5 0 0, rotation = Quat 0 0 0 1\<rparr>\<rparr>)
       (PoseObj \<lparr>position = XYZ 5 1 0, orientation = Quat 0 0 0 1\<rparr>) =
     transform_between_poses (PoseObj \<lparr>position = XYZ 0 0 0, orientation = Quat 0 0 0 1\<rparr>)
       (PoseObj \<lparr>position = XYZ 5 1 0, orientation = Quat 0 0 0 1\<rparr>)"
proof -
  have h: "\<not> isinstance_Pose (PoseStampedObj \<lparr>header = \<lparr>stamp = 10, frame_id = ''world''\<rparr>, child_frame_id = ''odom_true'',
        transform = \<lparr>translation = XYZ 5 0 0, rotation = Quat 0 0 0 1\<rparr>\<rparr>)"
    "\<not> isinstance_Transform (PoseStampedObj \<lparr>header = \<lparr>stamp = 10, frame_id = ''world''\<rparr>, child_frame_id = ''odom_true'',
        transform = \<lparr>translation = XYZ 5 0 0, rotation = Quat 0 0 0 1\<rparr>\<rparr>)"
    by (simp_all add: isinstance_Pose_def isinstance_Transform_def)
  show ?thesis
    using h pose2np_neither_is_identity[OF h,
        of "PoseObj \<lparr>position = XYZ 5 1 0, orientation = Quat 0 0 0 1\<rparr>"]
    by simp
qed

end
